theory Spec2Isabelle
  imports Complex_Main "HOL-Library.Multiset" "HOL-Library.Char_ord" "HOL-Library.List_Lexorder"
begin

section \<open>Values of a JSON request body\<close>

text \<open>
  \<^verbatim>\<open>express.json()\<close> hands every handler of \<^verbatim>\<open>server.js\<close> a parsed body, and the handlers
  test its fields with \<^verbatim>\<open>!x\<close>, \<^verbatim>\<open>isNaN(x)\<close> and \<^verbatim>\<open>x <= 0\<close> only, so a field is any
  JavaScript value: absent (\<^verbatim>\<open>undefined\<close>), \<^verbatim>\<open>null\<close>, a boolean, a number or a string.
  A finite number is the rational its decimal rendering denotes (the rendering is what
  the store is sent); a JSON numeral too large for a double is read as an infinity. NaN
  is no JSON value: it only comes out of a conversion, as \<open>None\<close>. Arrays and objects are
  not modelled.
\<close>

datatype number = Finite rat | PosInfinity | NegInfinity

datatype jsval = JUndefined | JNull | JBool bool | JNum number | JStr string

text \<open>ToBoolean, and \<^verbatim>\<open>!x\<close>.\<close>

fun truthy :: "jsval \<Rightarrow> bool" where
  "truthy JUndefined = False"
| "truthy JNull = False"
| "truthy (JBool b) = b"
| "truthy (JNum (Finite x)) = (x \<noteq> 0)"
| "truthy (JNum PosInfinity) = True"
| "truthy (JNum NegInfinity) = True"
| "truthy (JStr s) = (s \<noteq> [])"

definition js_not :: "jsval \<Rightarrow> bool" where
  "js_not v = (\<not> truthy v)"

text \<open>
  What the program calls but does not contain, taken as it comes: the string-to-number
  grammar of the language (\<open>None\<close> is NaN); of the store, the collation of its text
  columns (two texts are equal when their keys are, and sort by their keys), the number
  it reads a text as in a comparison with a number, the integer and the amount in
  hundredths it reads a quoted string as when it writes one (\<open>None\<close>: refused), and the
  text it writes a number as; the two functions of bcrypt on strings; the clock.
\<close>

record env =
  StringToNumber :: "string \<Rightarrow> number option"
  collation_key :: "string \<Rightarrow> string"
  mysql_number_of_text :: "string \<Rightarrow> rat"
  mysql_int_of_string :: "string \<Rightarrow> int option"
  mysql_decimal_of_string :: "string \<Rightarrow> int option"
  mysql_text_of_number :: "rat \<Rightarrow> string"
  bcrypt_hash :: "string \<Rightarrow> string"
  bcrypt_compare :: "string \<Rightarrow> string \<Rightarrow> bool"
  now :: nat

text \<open>ToNumber (\<open>None\<close> is NaN), the global \<^verbatim>\<open>isNaN\<close>, and the comparison \<^verbatim>\<open>x <= 0\<close>,
  which is false when \<^verbatim>\<open>x\<close> converts to NaN.\<close>

fun ToNumber :: "env \<Rightarrow> jsval \<Rightarrow> number option" where
  "ToNumber W JUndefined = None"
| "ToNumber W JNull = Some (Finite 0)"
| "ToNumber W (JBool b) = Some (Finite (if b then 1 else 0))"
| "ToNumber W (JNum n) = Some n"
| "ToNumber W (JStr s) = StringToNumber W s"

definition isNaN :: "env \<Rightarrow> jsval \<Rightarrow> bool" where
  "isNaN W v = (ToNumber W v = None)"

fun number_le_zero :: "number \<Rightarrow> bool" where
  "number_le_zero (Finite x) = (x \<le> 0)"
| "number_le_zero PosInfinity = False"
| "number_le_zero NegInfinity = True"

definition js_le_zero :: "env \<Rightarrow> jsval \<Rightarrow> bool" where
  "js_le_zero W v = (case ToNumber W v of None \<Rightarrow> False | Some n \<Rightarrow> number_le_zero n)"

section \<open>The libraries\<close>

text \<open>
  \<^verbatim>\<open>bcrypt.hash(data, 10)\<close> and \<^verbatim>\<open>bcrypt.compare(data, hash)\<close> reject their promise when
  \<^verbatim>\<open>data\<close> is not a string; the rejection is an \<^verbatim>\<open>Error\<close> without a \<^verbatim>\<open>code\<close>. An error of the
  store carries its code.
\<close>

datatype sql_error =
    ER_DUP_ENTRY
  | ER_NO_REFERENCED_ROW
  | ER_DATA_TOO_LONG
  | ER_TRUNCATED_WRONG_VALUE
  | ER_WARN_DATA_OUT_OF_RANGE
  | ER_BAD_NULL_ERROR
  | ER_BAD_FIELD_ERROR
  | WARN_DATA_TRUNCATED
  | ER_TRUNCATE_ILLEGAL_FK

datatype exn = StoreError sql_error | BcryptError

fun code :: "exn \<Rightarrow> sql_error option" where
  "code (StoreError e) = Some e"
| "code BcryptError = None"

text \<open>\<^verbatim>\<open>typeof data === 'string'\<close>\<close>

fun is_string :: "jsval \<Rightarrow> bool" where
  "is_string (JStr s) = True"
| "is_string v = False"

fun bcrypt_hash_js :: "env \<Rightarrow> jsval \<Rightarrow> exn + string" where
  "bcrypt_hash_js W (JStr s) = Inr (bcrypt_hash W s)"
| "bcrypt_hash_js W v = Inl BcryptError"

fun bcrypt_compare_js :: "env \<Rightarrow> jsval \<Rightarrow> string \<Rightarrow> exn + bool" where
  "bcrypt_compare_js W (JStr s) h = Inr (bcrypt_compare W s h)"
| "bcrypt_compare_js W v h = Inl BcryptError"

text \<open>
  \<^verbatim>\<open>pool.query(sql, values)\<close> writes each value into the statement: \<^verbatim>\<open>undefined\<close> and
  \<^verbatim>\<open>null\<close> as NULL, a boolean as \<^verbatim>\<open>true\<close> or \<^verbatim>\<open>false\<close> (the numbers 1 and 0 of the
  store), a number as its rendering, a string quoted. The rendering of an infinity is a
  bare word, which the store reads as the name of a column.
\<close>

datatype sql_literal = SqlNull | SqlNumber rat | SqlString string | SqlName string

fun escape :: "jsval \<Rightarrow> sql_literal" where
  "escape JUndefined = SqlNull"
| "escape JNull = SqlNull"
| "escape (JBool b) = SqlNumber (if b then 1 else 0)"
| "escape (JNum (Finite x)) = SqlNumber x"
| "escape (JNum PosInfinity) = SqlName ''Infinity''"
| "escape (JNum NegInfinity) = SqlName ''-Infinity''"
| "escape (JStr s) = SqlString s"

section \<open>The store\<close>

text \<open>
  The three tables of \<^verbatim>\<open>setupDatabase\<close>, one record per row, the rows in insertion
  order; the AUTO_INCREMENT counter of each table; and the session variable
  FOREIGN_KEY_CHECKS that \<^verbatim>\<open>/reset\<close> switches. The store is MySQL in strict SQL mode, read
  off the CREATE TABLE statements: a value that does not fit its column is an error, and
  the store is reachable (connection failures are not modelled). One session is
  modelled: the pool's connections are not told apart.
\<close>

datatype role = Government | Producer | Auditor

fun role_name :: "role \<Rightarrow> string" where
  "role_name Government = ''government''"
| "role_name Producer = ''producer''"
| "role_name Auditor = ''auditor''"

record user_row =
  user_id :: int
  user_name :: string
  user_email :: string
  user_password_hash :: string
  user_role :: role
  user_created_at :: nat

record vendor_row =
  vendor_id :: int
  vendor_name :: string
  vendor_wallet_address :: string
  vendor_milestone_goal :: int
  vendor_reward_amount :: int
  vendor_is_paid :: bool
  vendor_created_at :: nat

record progress_row =
  log_id :: int
  log_vendor_id :: int
  log_progress :: int
  log_timestamp :: nat

record db =
  users :: "user_row list"
  vendors :: "vendor_row list"
  progress_logs :: "progress_row list"
  users_auto_increment :: int
  vendors_auto_increment :: int
  progress_logs_auto_increment :: int
  FOREIGN_KEY_CHECKS :: bool

definition and_then :: "sql_error + 'a \<Rightarrow> ('a \<Rightarrow> sql_error + 'b) \<Rightarrow> sql_error + 'b" where
  "and_then r f = (case r of Inl e \<Rightarrow> Inl e | Inr x \<Rightarrow> f x)"

subsection \<open>Column types\<close>

text \<open>A number written to an integer column is rounded to the nearest integer, a half
  away from zero.\<close>

definition mysql_round :: "rat \<Rightarrow> int" where
  "mysql_round x = (if 0 \<le> x then \<lfloor>x + 1 / 2\<rfloor> else - \<lfloor>1 / 2 - x\<rfloor>)"

definition length_check :: "nat \<Rightarrow> string \<Rightarrow> sql_error + string" where
  "length_check n s = (if length s \<le> n then Inr s else Inl ER_DATA_TOO_LONG)"

fun sql_varchar :: "env \<Rightarrow> nat \<Rightarrow> sql_literal \<Rightarrow> sql_error + string" where
  "sql_varchar W n SqlNull = Inl ER_BAD_NULL_ERROR"
| "sql_varchar W n (SqlNumber x) = length_check n (mysql_text_of_number W x)"
| "sql_varchar W n (SqlString s) = length_check n s"
| "sql_varchar W n (SqlName c) = Inl ER_BAD_FIELD_ERROR"

definition sql_int_range :: "int \<Rightarrow> sql_error + int" where
  "sql_int_range n =
     (if - 2147483648 \<le> n \<and> n \<le> 2147483647 then Inr n else Inl ER_WARN_DATA_OUT_OF_RANGE)"

fun sql_int :: "env \<Rightarrow> sql_literal \<Rightarrow> sql_error + int" where
  "sql_int W SqlNull = Inl ER_BAD_NULL_ERROR"
| "sql_int W (SqlNumber x) = sql_int_range (mysql_round x)"
| "sql_int W (SqlString s) =
     (case mysql_int_of_string W s of
        None \<Rightarrow> Inl ER_TRUNCATED_WRONG_VALUE
      | Some n \<Rightarrow> sql_int_range n)"
| "sql_int W (SqlName c) = Inl ER_BAD_FIELD_ERROR"

text \<open>DECIMAL(10,2), kept in hundredths.\<close>

definition sql_decimal_range :: "int \<Rightarrow> sql_error + int" where
  "sql_decimal_range c =
     (if - 9999999999 \<le> c \<and> c \<le> 9999999999 then Inr c else Inl ER_WARN_DATA_OUT_OF_RANGE)"

fun sql_decimal :: "env \<Rightarrow> sql_literal \<Rightarrow> sql_error + int" where
  "sql_decimal W SqlNull = Inl ER_BAD_NULL_ERROR"
| "sql_decimal W (SqlNumber x) = sql_decimal_range (mysql_round (x * 100))"
| "sql_decimal W (SqlString s) =
     (case mysql_decimal_of_string W s of
        None \<Rightarrow> Inl ER_TRUNCATED_WRONG_VALUE
      | Some c \<Rightarrow> sql_decimal_range c)"
| "sql_decimal W (SqlName c) = Inl ER_BAD_FIELD_ERROR"

text \<open>
  \<^verbatim>\<open>role ENUM('government', 'producer', 'auditor') NOT NULL\<close>. The column takes a text
  that equals one of its members under the collation; a number, and a text that is no
  member but reads as a number, is taken as the index of a member, counted from 1.
\<close>

definition enum_index :: "int \<Rightarrow> sql_error + role" where
  "enum_index i =
     (if i = 1 then Inr Government
      else if i = 2 then Inr Producer
      else if i = 3 then Inr Auditor
      else Inl WARN_DATA_TRUNCATED)"

fun sql_enum_role :: "env \<Rightarrow> sql_literal \<Rightarrow> sql_error + role" where
  "sql_enum_role W SqlNull = Inl ER_BAD_NULL_ERROR"
| "sql_enum_role W (SqlNumber x) = enum_index (mysql_round x)"
| "sql_enum_role W (SqlString s) =
     (case find (\<lambda>m. collation_key W (role_name m) = collation_key W s)
             [Government, Producer, Auditor] of
        Some m \<Rightarrow> Inr m
      | None \<Rightarrow>
          (case mysql_int_of_string W s of
             None \<Rightarrow> Inl WARN_DATA_TRUNCATED
           | Some i \<Rightarrow> enum_index i))"
| "sql_enum_role W (SqlName c) = Inl ER_BAD_FIELD_ERROR"

text \<open>The result of SUM over an INT column is a DECIMAL, which the driver (its option
  \<^verbatim>\<open>decimalNumbers\<close> is not set in \<^verbatim>\<open>dbConfig\<close>) hands over as its decimal text.\<close>

fun decimal_nat :: "nat \<Rightarrow> string" where
  "decimal_nat n =
     (if n < 10 then [''0123456789'' ! n]
      else decimal_nat (n div 10) @ [''0123456789'' ! (n mod 10)])"

definition decimal :: "int \<Rightarrow> string" where
  "decimal i = (if i < 0 then CHR ''-'' # decimal_nat (nat (- i)) else decimal_nat (nat i))"

subsection \<open>The statements the handlers send\<close>

text \<open>\<^verbatim>\<open>INSERT INTO users (name, email, password_hash, role) VALUES (?, ?, ?, ?)\<close>\<close>

definition insert_user :: "env \<Rightarrow> sql_literal \<Rightarrow> sql_literal \<Rightarrow> sql_literal \<Rightarrow> sql_literal \<Rightarrow> db \<Rightarrow> sql_error + db" where
  "insert_user W name email passwordHash role d =
     and_then (sql_varchar W 255 name) (\<lambda>n.
     and_then (sql_varchar W 255 email) (\<lambda>e.
     and_then (sql_varchar W 255 passwordHash) (\<lambda>h.
     and_then (sql_enum_role W role) (\<lambda>r.
       if list_ex (\<lambda>u. collation_key W (user_email u) = collation_key W e) (users d)
       then Inl ER_DUP_ENTRY
       else Inr (d\<lparr>users := users d @
                    [\<lparr>user_id = users_auto_increment d, user_name = n, user_email = e,
                      user_password_hash = h, user_role = r, user_created_at = now W\<rparr>],
                  users_auto_increment := users_auto_increment d + 1\<rparr>)))))"

text \<open>\<^verbatim>\<open>SELECT * FROM users WHERE email = ?\<close>: a text is compared under the collation, a
  number with the number the stored text reads as; nothing equals NULL.\<close>

fun select_users_by_email :: "env \<Rightarrow> sql_literal \<Rightarrow> db \<Rightarrow> sql_error + user_row list" where
  "select_users_by_email W SqlNull d = Inr []"
| "select_users_by_email W (SqlNumber x) d =
     Inr (filter (\<lambda>u. mysql_number_of_text W (user_email u) = x) (users d))"
| "select_users_by_email W (SqlString s) d =
     Inr (filter (\<lambda>u. collation_key W (user_email u) = collation_key W s) (users d))"
| "select_users_by_email W (SqlName c) d = Inl ER_BAD_FIELD_ERROR"

text \<open>\<^verbatim>\<open>SELECT * FROM vendors ORDER BY name\<close>\<close>

definition select_vendors :: "env \<Rightarrow> db \<Rightarrow> sql_error + vendor_row list" where
  "select_vendors W d = Inr (sort_key (\<lambda>v. collation_key W (vendor_name v)) (vendors d))"

text \<open>\<^verbatim>\<open>INSERT INTO vendors (name, wallet_address, milestone_goal, reward_amount) VALUES (?, ?, ?, ?)\<close>;
  the result carries \<^verbatim>\<open>insertId\<close>.\<close>

definition insert_vendor :: "env \<Rightarrow> sql_literal \<Rightarrow> sql_literal \<Rightarrow> sql_literal \<Rightarrow> sql_literal \<Rightarrow> db \<Rightarrow> sql_error + (int \<times> db)" where
  "insert_vendor W name walletAddress milestoneGoal rewardAmount d =
     and_then (sql_varchar W 255 name) (\<lambda>n.
     and_then (sql_varchar W 42 walletAddress) (\<lambda>w.
     and_then (sql_int W milestoneGoal) (\<lambda>g.
     and_then (sql_decimal W rewardAmount) (\<lambda>a.
       if list_ex (\<lambda>v. collation_key W (vendor_wallet_address v) = collation_key W w) (vendors d)
       then Inl ER_DUP_ENTRY
       else Inr (vendors_auto_increment d,
                 d\<lparr>vendors := vendors d @
                    [\<lparr>vendor_id = vendors_auto_increment d, vendor_name = n,
                      vendor_wallet_address = w, vendor_milestone_goal = g,
                      vendor_reward_amount = a, vendor_is_paid = False,
                      vendor_created_at = now W\<rparr>],
                   vendors_auto_increment := vendors_auto_increment d + 1\<rparr>)))))"

text \<open>\<^verbatim>\<open>SELECT SUM(progress) as totalProgress FROM progress_logs WHERE vendor_id = ?\<close>:
  one row, whose column is NULL when no row matches and the decimal text of the sum
  otherwise.\<close>

definition select_sum_progress :: "int \<Rightarrow> db \<Rightarrow> sql_error + jsval" where
  "select_sum_progress vendorId d =
     (let rows = filter (\<lambda>r. log_vendor_id r = vendorId) (progress_logs d)
      in Inr (if rows = [] then JNull else JStr (decimal (sum_list (map log_progress rows)))))"

text \<open>\<^verbatim>\<open>INSERT INTO progress_logs (vendor_id, progress, timestamp) VALUES (?, ?, ?)\<close>, under
  \<^verbatim>\<open>FOREIGN KEY (vendor_id) REFERENCES vendors(id)\<close>.\<close>

definition insert_progress :: "env \<Rightarrow> int \<Rightarrow> sql_literal \<Rightarrow> nat \<Rightarrow> db \<Rightarrow> sql_error + db" where
  "insert_progress W vendorId newProgress timestamp d =
     and_then (sql_int_range vendorId) (\<lambda>v.
     and_then (sql_int W newProgress) (\<lambda>p.
       if FOREIGN_KEY_CHECKS d \<and> list_all (\<lambda>x. vendor_id x \<noteq> v) (vendors d)
       then Inl ER_NO_REFERENCED_ROW
       else Inr (d\<lparr>progress_logs := progress_logs d @
                    [\<lparr>log_id = progress_logs_auto_increment d, log_vendor_id = v,
                      log_progress = p, log_timestamp = timestamp\<rparr>],
                  progress_logs_auto_increment := progress_logs_auto_increment d + 1\<rparr>)))"

text \<open>\<^verbatim>\<open>UPDATE vendors SET is_paid = TRUE WHERE id = ?\<close>\<close>

definition update_vendor_paid :: "int \<Rightarrow> db \<Rightarrow> sql_error + db" where
  "update_vendor_paid vendorId d =
     Inr (d\<lparr>vendors :=
            map (\<lambda>v. if vendor_id v = vendorId then v\<lparr>vendor_is_paid := True\<rparr> else v) (vendors d)\<rparr>)"

text \<open>\<^verbatim>\<open>SET FOREIGN_KEY_CHECKS = ...\<close> and the three TRUNCATE TABLE statements. The store
  refuses to truncate \<^verbatim>\<open>vendors\<close>, which \<^verbatim>\<open>progress_logs\<close> references, while the checks
  are on. A truncation restarts the table's counter.\<close>

definition set_foreign_key_checks :: "bool \<Rightarrow> db \<Rightarrow> sql_error + db" where
  "set_foreign_key_checks b d = Inr (d\<lparr>FOREIGN_KEY_CHECKS := b\<rparr>)"

definition truncate_progress_logs :: "db \<Rightarrow> sql_error + db" where
  "truncate_progress_logs d = Inr (d\<lparr>progress_logs := [], progress_logs_auto_increment := 1\<rparr>)"

definition truncate_vendors :: "db \<Rightarrow> sql_error + db" where
  "truncate_vendors d =
     (if FOREIGN_KEY_CHECKS d then Inl ER_TRUNCATE_ILLEGAL_FK
      else Inr (d\<lparr>vendors := [], vendors_auto_increment := 1\<rparr>))"

definition truncate_users :: "db \<Rightarrow> sql_error + db" where
  "truncate_users d = Inr (d\<lparr>users := [], users_auto_increment := 1\<rparr>)"

text \<open>\<^verbatim>\<open>setupDatabase\<close>: a new pool (a fresh session, checks on) and the three
  \<^verbatim>\<open>CREATE TABLE IF NOT EXISTS\<close>: tables that exist are kept with their rows.\<close>

definition setupDatabase :: "db option \<Rightarrow> db" where
  "setupDatabase stored =
     (case stored of
        None \<Rightarrow> \<lparr>users = [], vendors = [], progress_logs = [], users_auto_increment = 1,
                 vendors_auto_increment = 1, progress_logs_auto_increment = 1,
                 FOREIGN_KEY_CHECKS = True\<rparr>
      | Some d \<Rightarrow> d\<lparr>FOREIGN_KEY_CHECKS := True\<rparr>)"

section \<open>The handlers\<close>

datatype body =
    Message string
  | LoginUser string int string string string
  | VendorAdded string int
  | VendorRows "vendor_row list"
  | TotalProgress jsval

record response =
  status :: nat
  body :: body

text \<open>\<^verbatim>\<open>app.post('/signup')\<close>. The \<^verbatim>\<open>try\<close> block is a computation that ends in the new store
  or in what was thrown; the \<^verbatim>\<open>catch\<close> looks at the code of what was thrown.\<close>

definition signup :: "env \<Rightarrow> jsval \<Rightarrow> jsval \<Rightarrow> jsval \<Rightarrow> jsval \<Rightarrow> db \<Rightarrow> response \<times> db" where
  "signup W name email role password d =
     (if js_not name \<or> js_not email \<or> js_not role \<or> js_not password
      then (\<lparr>status = 400, body = Message ''All fields are required for signup.''\<rparr>, d)
      else
        (case (case bcrypt_hash_js W password of
                 Inl err \<Rightarrow> Inl err
               | Inr passwordHash \<Rightarrow>
                   (case insert_user W (escape name) (escape email) (SqlString passwordHash)
                           (escape role) d of
                      Inl err \<Rightarrow> Inl (StoreError err)
                    | Inr d' \<Rightarrow> Inr d')) of
           Inr d' \<Rightarrow> (\<lparr>status = 201, body = Message ''User created successfully!''\<rparr>, d')
         | Inl err \<Rightarrow>
             if code err = Some ER_DUP_ENTRY
             then (\<lparr>status = 409, body = Message ''An account with this email already exists.''\<rparr>, d)
             else (\<lparr>status = 500, body = Message ''Failed to create user.''\<rparr>, d)))"

text \<open>\<^verbatim>\<open>app.post('/login')\<close>; \<^verbatim>\<open>user.role !== role\<close> compares the stored member, a string,
  with the value of the body.\<close>

definition access_denied :: "string \<Rightarrow> string" where
  "access_denied r =
     ''Access denied. Please log in through the '' @ [CHR 0x27] @ r @ [CHR 0x27] @ '' portal.''"

definition login :: "env \<Rightarrow> jsval \<Rightarrow> jsval \<Rightarrow> jsval \<Rightarrow> db \<Rightarrow> response \<times> db" where
  "login W email password role d =
     (if js_not email \<or> js_not password \<or> js_not role
      then (\<lparr>status = 400, body = Message ''Email, password, and role are required.''\<rparr>, d)
      else
        (case select_users_by_email W (escape email) d of
           Inl err \<Rightarrow> (\<lparr>status = 500, body = Message ''An internal server error occurred.''\<rparr>, d)
         | Inr [] \<Rightarrow> (\<lparr>status = 401, body = Message ''Invalid email or password.''\<rparr>, d)
         | Inr (user # rest) \<Rightarrow>
             (case bcrypt_compare_js W password (user_password_hash user) of
                Inl err \<Rightarrow>
                  (\<lparr>status = 500, body = Message ''An internal server error occurred.''\<rparr>, d)
              | Inr passwordMatch \<Rightarrow>
                  if \<not> passwordMatch
                  then (\<lparr>status = 401, body = Message ''Invalid email or password.''\<rparr>, d)
                  else if JStr (role_name (user_role user)) \<noteq> role
                  then (\<lparr>status = 403,
                         body = Message (access_denied (role_name (user_role user)))\<rparr>, d)
                  else (\<lparr>status = 200,
                         body = LoginUser ''Login successful!'' (user_id user) (user_name user)
                                  (user_email user) (role_name (user_role user))\<rparr>, d))))"

text \<open>\<^verbatim>\<open>app.get('/vendors')\<close>\<close>

definition listVendors :: "env \<Rightarrow> db \<Rightarrow> response \<times> db" where
  "listVendors W d =
     (case select_vendors W d of
        Inr rows \<Rightarrow> (\<lparr>status = 200, body = VendorRows rows\<rparr>, d)
      | Inl err \<Rightarrow> (\<lparr>status = 500, body = Message ''Failed to fetch vendors.''\<rparr>, d))"

text \<open>\<^verbatim>\<open>app.post('/add-vendor')\<close>\<close>

definition addVendor :: "env \<Rightarrow> jsval \<Rightarrow> jsval \<Rightarrow> jsval \<Rightarrow> jsval \<Rightarrow> db \<Rightarrow> response \<times> db" where
  "addVendor W name walletAddress milestoneGoal rewardAmount d =
     (if js_not name \<or> js_not walletAddress \<or> js_not milestoneGoal \<or> js_not rewardAmount
      then (\<lparr>status = 400, body = Message ''All vendor fields are required.''\<rparr>, d)
      else
        (case insert_vendor W (escape name) (escape walletAddress) (escape milestoneGoal)
                (escape rewardAmount) d of
           Inr (insertId, d') \<Rightarrow>
             (\<lparr>status = 201, body = VendorAdded ''Vendor added successfully!'' insertId\<rparr>, d')
         | Inl err \<Rightarrow> (\<lparr>status = 500, body = Message ''Failed to add vendor.''\<rparr>, d)))"

text \<open>\<^verbatim>\<open>app.get('/vendors/:vendorId/progress')\<close>; the path parameter is the id it denotes.\<close>

definition getTotalProgress :: "int \<Rightarrow> db \<Rightarrow> response \<times> db" where
  "getTotalProgress vendorId d =
     (case select_sum_progress vendorId d of
        Inr s \<Rightarrow>
          (let totalProgress = (if truthy s then s else JNum (Finite 0))
           in (\<lparr>status = 200, body = TotalProgress totalProgress\<rparr>, d))
      | Inl err \<Rightarrow> (\<lparr>status = 500, body = Message ''Failed to fetch progress.''\<rparr>, d))"

text \<open>\<^verbatim>\<open>app.post('/vendors/:vendorId/progress')\<close>\<close>

definition recordProgress :: "env \<Rightarrow> int \<Rightarrow> jsval \<Rightarrow> db \<Rightarrow> response \<times> db" where
  "recordProgress W vendorId newProgress d =
     (if js_not newProgress \<or> isNaN W newProgress \<or> js_le_zero W newProgress
      then (\<lparr>status = 400, body = Message ''Invalid progress value.''\<rparr>, d)
      else
        (let timestamp = now W in
         case insert_progress W vendorId (escape newProgress) timestamp d of
           Inr d' \<Rightarrow> (\<lparr>status = 200, body = Message ''Progress updated successfully!''\<rparr>, d')
         | Inl err \<Rightarrow> (\<lparr>status = 500, body = Message ''Failed to update progress.''\<rparr>, d)))"

text \<open>\<^verbatim>\<open>app.post('/vendors/:vendorId/payout')\<close>\<close>

definition markPaid :: "int \<Rightarrow> db \<Rightarrow> response \<times> db" where
  "markPaid vendorId d =
     (case update_vendor_paid vendorId d of
        Inr d' \<Rightarrow> (\<lparr>status = 200, body = Message ''Payout processed successfully!''\<rparr>, d')
      | Inl err \<Rightarrow> (\<lparr>status = 500, body = Message ''Failed to process payout.''\<rparr>, d))"

text \<open>\<^verbatim>\<open>app.post('/reset')\<close>: five statements in a row; the first that fails ends the
  handler in its \<^verbatim>\<open>catch\<close>, with the statements before it done.\<close>

definition resetAll :: "db \<Rightarrow> response \<times> db" where
  "resetAll d =
     (case set_foreign_key_checks False d of
        Inl err \<Rightarrow> (\<lparr>status = 500, body = Message ''Failed to reset.''\<rparr>, d)
      | Inr d1 \<Rightarrow>
     (case truncate_progress_logs d1 of
        Inl err \<Rightarrow> (\<lparr>status = 500, body = Message ''Failed to reset.''\<rparr>, d1)
      | Inr d2 \<Rightarrow>
     (case truncate_vendors d2 of
        Inl err \<Rightarrow> (\<lparr>status = 500, body = Message ''Failed to reset.''\<rparr>, d2)
      | Inr d3 \<Rightarrow>
     (case truncate_users d3 of
        Inl err \<Rightarrow> (\<lparr>status = 500, body = Message ''Failed to reset.''\<rparr>, d3)
      | Inr d4 \<Rightarrow>
     (case set_foreign_key_checks True d4 of
        Inl err \<Rightarrow> (\<lparr>status = 500, body = Message ''Failed to reset.''\<rparr>, d4)
      | Inr d5 \<Rightarrow> (\<lparr>status = 200, body = Message ''Simulation reset successfully.''\<rparr>, d5))))))"

text \<open>The router: each request goes to the handler of its route.\<close>

datatype request =
    POST_signup jsval jsval jsval jsval
  | POST_login jsval jsval jsval
  | GET_vendors
  | POST_add_vendor jsval jsval jsval jsval
  | GET_progress int
  | POST_progress int jsval
  | POST_payout int
  | POST_reset

fun route :: "env \<Rightarrow> request \<Rightarrow> db \<Rightarrow> response \<times> db" where
  "route W (POST_signup name email role password) d = signup W name email role password d"
| "route W (POST_login email password role) d = login W email password role d"
| "route W GET_vendors d = listVendors W d"
| "route W (POST_add_vendor name walletAddress milestoneGoal rewardAmount) d =
     addVendor W name walletAddress milestoneGoal rewardAmount d"
| "route W (GET_progress vendorId) d = getTotalProgress vendorId d"
| "route W (POST_progress vendorId newProgress) d = recordProgress W vendorId newProgress d"
| "route W (POST_payout vendorId) d = markPaid vendorId d"
| "route W POST_reset d = resetAll d"

text \<open>The states of the store while the server runs: \<^verbatim>\<open>setupDatabase().then(app.listen)\<close>
  over whatever the store held, then one request after another.\<close>

inductive reachable :: "db \<Rightarrow> bool" where
  listen: "reachable (setupDatabase stored)"
| request: "reachable d \<Longrightarrow> reachable (snd (route W req d))"

section \<open>Notions of the specification\<close>

text \<open>The cumulative progress of a vendor: the sum of the \<open>progress\<close> of its rows.\<close>

definition stored_progress :: "int \<Rightarrow> db \<Rightarrow> int" where
  "stored_progress vendorId d =
     sum_list (map log_progress (filter (\<lambda>r. log_vendor_id r = vendorId) (progress_logs d)))"

text \<open>A sequence of recordings for one vendor, each a finite number sent at its own
  moment, all answered 200; \<open>None\<close> when one of them is not.\<close>

fun recordAll :: "(env \<times> rat) list \<Rightarrow> int \<Rightarrow> db \<Rightarrow> db option" where
  "recordAll [] vendorId d = Some d"
| "recordAll ((W, p) # calls) vendorId d =
     (case recordProgress W vendorId (JNum (Finite p)) d of
        (r, d') \<Rightarrow> if status r = 200 then recordAll calls vendorId d' else None)"

text \<open>When the store takes the number \<open>p\<close> as progress of \<open>vendorId\<close>.\<close>

definition accepts :: "int \<Rightarrow> rat \<Rightarrow> db \<Rightarrow> bool" where
  "accepts vendorId p d =
     (0 < p \<and> mysql_round p \<le> 2147483647 \<and> - 2147483648 \<le> vendorId \<and> vendorId \<le> 2147483647 \<and>
      (FOREIGN_KEY_CHECKS d \<longrightarrow> list_ex (\<lambda>x. vendor_id x = vendorId) (vendors d)))"

section \<open>Sample data\<close>

text \<open>An environment in which no string is a number and texts are equal when they are
  the same, with a transparent stand-in for bcrypt; and the stores of the
  specification's example scenario.\<close>

definition sample_env :: env where
  "sample_env =
     \<lparr>StringToNumber = (\<lambda>s. None), collation_key = (\<lambda>s. s),
      mysql_number_of_text = (\<lambda>s. 0), mysql_int_of_string = (\<lambda>s. None),
      mysql_decimal_of_string = (\<lambda>s. None), mysql_text_of_number = (\<lambda>x. []),
      bcrypt_hash = (\<lambda>p. ''$2b$10$'' @ p),
      bcrypt_compare = (\<lambda>p h. h = ''$2b$10$'' @ p),
      now = 0\<rparr>"

definition acme_db :: db where
  "acme_db =
     snd (addVendor sample_env (JStr ''Acme H2'') (JStr ''0xABC'') (JNum (Finite 1000))
            (JNum (Finite 50000)) (setupDatabase None))"

definition alice_db :: db where
  "alice_db =
     snd (signup sample_env (JStr ''Alice'') (JStr ''alice@example.org'') (JStr ''government'')
            (JStr ''hunter2'') acme_db)"

definition busy_db :: db where
  "busy_db = snd (recordProgress sample_env 1 (JNum (Finite 300)) alice_db)"

section \<open>Sequencing, rounding and rendering\<close>

declare decimal_nat.simps [simp del]

lemma and_then_Inl [simp]: "and_then (Inl e) f = Inl e"
  by (simp add: and_then_def)

lemma and_then_Inr [simp]: "and_then (Inr x) f = f x"
  by (simp add: and_then_def)

lemma and_then_Inr_iff: "and_then r f = Inr y \<longleftrightarrow> (\<exists>x. r = Inr x \<and> f x = Inr y)"
  by (cases r) simp_all

lemma mysql_round_of_int: "mysql_round (of_int k) = k"
  by (simp add: mysql_round_def floor_eq_iff)

lemma mysql_round_numeral [simp]: "mysql_round (numeral n) = numeral n"
  using mysql_round_of_int [of "numeral n"] by simp

lemma mysql_round_1 [simp]: "mysql_round 1 = 1"
  using mysql_round_of_int [of 1] by simp

lemma mysql_round_0 [simp]: "mysql_round 0 = 0"
  by (simp add: mysql_round_def floor_eq_iff)

lemma mysql_round_Ints: "x \<in> \<int> \<Longrightarrow> of_int (mysql_round x) = x"
  by (auto simp add: mysql_round_of_int elim: Ints_cases)

lemma mysql_round_quarter: "mysql_round (1 / 4) = 0"
  by (simp add: mysql_round_def floor_eq_iff)

section \<open>Evaluating the sample data\<close>

lemma acme_db_eq:
  "acme_db =
     \<lparr>users = [],
      vendors = [\<lparr>vendor_id = 1, vendor_name = ''Acme H2'', vendor_wallet_address = ''0xABC'',
                  vendor_milestone_goal = 1000, vendor_reward_amount = 5000000,
                  vendor_is_paid = False, vendor_created_at = 0\<rparr>],
      progress_logs = [], users_auto_increment = 1, vendors_auto_increment = 2,
      progress_logs_auto_increment = 1, FOREIGN_KEY_CHECKS = True\<rparr>"
  by (simp add: acme_db_def addVendor_def insert_vendor_def length_check_def
        sql_int_range_def sql_decimal_range_def setupDatabase_def js_not_def sample_env_def)

lemma alice_db_eq:
  "alice_db =
     acme_db\<lparr>users := [\<lparr>user_id = 1, user_name = ''Alice'', user_email = ''alice@example.org'',
                         user_password_hash = ''$2b$10$hunter2'', user_role = Government,
                         user_created_at = 0\<rparr>],
             users_auto_increment := 2\<rparr>"
  by (simp add: alice_db_def signup_def insert_user_def length_check_def js_not_def
        acme_db_eq sample_env_def)

section \<open>Cumulative progress\<close>

lemma decimal_nat_not_Nil: "decimal_nat n \<noteq> []"
  by (subst decimal_nat.simps) simp

lemma decimal_not_Nil: "decimal i \<noteq> []"
  by (simp add: decimal_def decimal_nat_not_Nil)

lemma getTotalProgress_eq:
  "getTotalProgress vendorId d =
     (\<lparr>status = 200,
       body = TotalProgress
                (if filter (\<lambda>r. log_vendor_id r = vendorId) (progress_logs d) = []
                 then JNum (Finite 0) else JStr (decimal (stored_progress vendorId d)))\<rparr>, d)"
  by (simp add: getTotalProgress_def select_sum_progress_def stored_progress_def Let_def
        decimal_not_Nil)

lemma mysql_round_nonneg: "0 < x \<Longrightarrow> 0 \<le> mysql_round x"
  by (simp add: mysql_round_def)

lemma recordProgress_num:
  "recordProgress W vendorId (JNum (Finite p)) d =
     (if p \<le> 0 then (\<lparr>status = 400, body = Message ''Invalid progress value.''\<rparr>, d)
      else if accepts vendorId p d
      then (\<lparr>status = 200, body = Message ''Progress updated successfully!''\<rparr>,
            d\<lparr>progress_logs := progress_logs d @
                 [\<lparr>log_id = progress_logs_auto_increment d, log_vendor_id = vendorId,
                   log_progress = mysql_round p, log_timestamp = now W\<rparr>],
               progress_logs_auto_increment := progress_logs_auto_increment d + 1\<rparr>)
      else (\<lparr>status = 500, body = Message ''Failed to update progress.''\<rparr>, d))"
proof -
  have "- 2147483648 \<le> mysql_round p" if "0 < p"
    using mysql_round_nonneg [OF that] by simp
  then show ?thesis
    by (auto simp add: recordProgress_def js_not_def isNaN_def js_le_zero_def insert_progress_def
          and_then_def sql_int_range_def accepts_def Let_def list_ex_iff list_all_iff)
qed

lemma busy_db_eq:
  "busy_db =
     alice_db\<lparr>progress_logs := [\<lparr>log_id = 1, log_vendor_id = 1, log_progress = 300,
                                  log_timestamp = 0\<rparr>],
              progress_logs_auto_increment := 2\<rparr>"
  by (simp add: busy_db_def recordProgress_num accepts_def alice_db_eq acme_db_eq sample_env_def)

lemma recordAll_Some:
  "recordAll calls vendorId d = Some d1 \<Longrightarrow>
     stored_progress vendorId d1 =
       stored_progress vendorId d + sum_list (map (mysql_round \<circ> snd) calls) \<and>
     list_all (\<lambda>p. accepts vendorId p d) (map snd calls) \<and>
     (calls \<noteq> [] \<longrightarrow> filter (\<lambda>r. log_vendor_id r = vendorId) (progress_logs d1) \<noteq> [])"
proof (induction calls arbitrary: d)
  case Nil
  then show ?case by simp
next
  case (Cons c calls)
  obtain W p where c: "c = (W, p)" by (cases c)
  let ?d' = "snd (recordProgress W vendorId (JNum (Finite p)) d)"
  from Cons.prems c have ok: "0 < p" "accepts vendorId p d"
    by (auto simp add: recordProgress_num split: if_splits)
  with Cons.prems c have rest: "recordAll calls vendorId ?d' = Some d1"
    by (simp add: recordProgress_num)
  have step: "stored_progress vendorId ?d' = stored_progress vendorId d + mysql_round p"
    using ok by (simp add: recordProgress_num stored_progress_def)
  have same: "\<And>q. accepts vendorId q ?d' = accepts vendorId q d"
    using ok by (simp add: recordProgress_num accepts_def)
  have row: "filter (\<lambda>r. log_vendor_id r = vendorId) (progress_logs ?d') \<noteq> []"
    using ok by (simp add: recordProgress_num)
  have keep: "filter (\<lambda>r. log_vendor_id r = vendorId) (progress_logs d1) \<noteq> []"
  proof (cases calls)
    case Nil
    with rest row show ?thesis by simp
  next
    case (Cons c' calls')
    with Cons.IH [OF rest] show ?thesis by simp
  qed
  from Cons.IH [OF rest] step same ok c keep show ?case by simp
qed

lemma recordAll_accepts:
  "list_all (\<lambda>p. accepts vendorId p d) (map snd calls) \<Longrightarrow>
     \<exists>d2. recordAll calls vendorId d = Some d2"
proof (induction calls arbitrary: d)
  case Nil
  then show ?case by simp
next
  case (Cons c calls)
  obtain W p where c: "c = (W, p)" by (cases c)
  let ?d' = "snd (recordProgress W vendorId (JNum (Finite p)) d)"
  from Cons.prems c have ok: "0 < p" "accepts vendorId p d"
    by (auto simp add: accepts_def)
  have same: "\<And>q. accepts vendorId q ?d' = accepts vendorId q d"
    using ok by (simp add: recordProgress_num accepts_def)
  from Cons.prems c same have "list_all (\<lambda>p. accepts vendorId p ?d') (map snd calls)"
    by simp
  from Cons.IH [OF this] ok c show ?case
    by (simp add: recordProgress_num)
qed

lemma sum_list_mysql_round_Ints:
  "list_all (\<lambda>p. p \<in> \<int>) ps \<Longrightarrow> of_int (sum_list (map mysql_round ps)) = sum_list ps"
  by (induction ps) (simp_all add: mysql_round_Ints)

text \<open>
  The specification has the total be the sum of the recorded values. The handler does not
  ask for an integer and the column is an INT: the store rounds what it is sent, and the
  sum comes back from the driver as a text. A quarter, recorded for the vendor of the
  example, is answered 200 and stored as 0, and the total is then the text \<^verbatim>\<open>0\<close>, not a
  quarter.
\<close>

theorem recordProgress_quarter_rounded:
  "recordProgress sample_env 1 (JNum (Finite (1 / 4))) acme_db =
     (\<lparr>status = 200, body = Message ''Progress updated successfully!''\<rparr>,
      acme_db\<lparr>progress_logs := [\<lparr>log_id = 1, log_vendor_id = 1, log_progress = 0,
                                  log_timestamp = 0\<rparr>],
              progress_logs_auto_increment := 2\<rparr>) \<and>
   fst (getTotalProgress 1 (snd (recordProgress sample_env 1 (JNum (Finite (1 / 4))) acme_db))) =
     \<lparr>status = 200, body = TotalProgress (JStr ''0'')\<rparr>"
  by (simp add: recordProgress_num accepts_def mysql_round_quarter acme_db_eq sample_env_def
        getTotalProgress_eq stored_progress_def decimal_def decimal_nat.simps)

text \<open>
  C1, as the program has it. Let the numbers \<open>p1, ..., pn\<close> (at least one) be recorded for
  a vendor, one request each, every request answered 200. Then each of them is strictly
  positive, and the vendor's \<^verbatim>\<open>GET /vendors/:vendorId/progress\<close> answers 200 with the
  decimal text of the sum of what the vendor had before and of \<open>p1, ..., pn\<close> as the column
  stores them, each rounded to the nearest integer. When \<open>p1, ..., pn\<close> are integers the
  latter sum is \<open>p1 + ... + pn\<close>. Recording the same numbers in any other order, at any
  other moments, succeeds as well and ends with the same answer.
\<close>

theorem totalProgress_is_sum:
  assumes "recordAll calls vendorId d = Some d1"
    and "calls \<noteq> []"
    and "mset (map snd calls') = mset (map snd calls)"
  shows "fst (getTotalProgress vendorId d1) =
           \<lparr>status = 200,
            body = TotalProgress
                     (JStr (decimal (stored_progress vendorId d +
                                     sum_list (map mysql_round (map snd calls)))))\<rparr> \<and>
         list_all (\<lambda>p. 0 < p) (map snd calls) \<and>
         (list_all (\<lambda>p. p \<in> \<int>) (map snd calls) \<longrightarrow>
            of_int (sum_list (map mysql_round (map snd calls))) = sum_list (map snd calls)) \<and>
         (\<exists>d2. recordAll calls' vendorId d = Some d2 \<and>
               fst (getTotalProgress vendorId d2) = fst (getTotalProgress vendorId d1))"
proof -
  from recordAll_Some [OF assms(1)] assms(2)
  have sum1: "stored_progress vendorId d1 =
                stored_progress vendorId d + sum_list (map mysql_round (map snd calls))"
    and acc: "list_all (\<lambda>p. accepts vendorId p d) (map snd calls)"
    and rows1: "filter (\<lambda>r. log_vendor_id r = vendorId) (progress_logs d1) \<noteq> []"
    by simp_all
  from assms(3) have sets: "set (map snd calls') = set (map snd calls)"
    by (rule mset_eq_setD)
  with acc have "list_all (\<lambda>p. accepts vendorId p d) (map snd calls')"
    by (simp add: list_all_iff)
  from recordAll_accepts [OF this] obtain d2 where d2: "recordAll calls' vendorId d = Some d2" ..
  from assms(2) sets have "calls' \<noteq> []"
    by auto
  with recordAll_Some [OF d2]
  have rows2: "filter (\<lambda>r. log_vendor_id r = vendorId) (progress_logs d2) \<noteq> []"
    and "stored_progress vendorId d2 =
           stored_progress vendorId d + sum_list (map mysql_round (map snd calls'))"
    by simp_all
  moreover from assms(3) have "mset (map mysql_round (map snd calls')) =
                                 mset (map mysql_round (map snd calls))"
    by (metis mset_map)
  then have "sum_list (map mysql_round (map snd calls')) =
               sum_list (map mysql_round (map snd calls))"
    by (metis sum_mset_sum_list)
  ultimately have sum2: "stored_progress vendorId d2 = stored_progress vendorId d1"
    using sum1 by simp
  from acc have pos: "list_all (\<lambda>p. 0 < p) (map snd calls)"
    by (simp add: list_all_iff accepts_def)
  have ints: "list_all (\<lambda>p. p \<in> \<int>) (map snd calls) \<longrightarrow>
                of_int (sum_list (map mysql_round (map snd calls))) = sum_list (map snd calls)"
    by (rule impI) (rule sum_list_mysql_round_Ints)
  have a1: "fst (getTotalProgress vendorId d1) =
              \<lparr>status = 200,
               body = TotalProgress
                        (JStr (decimal (stored_progress vendorId d +
                                        sum_list (map mysql_round (map snd calls)))))\<rparr>"
    using rows1 sum1 by (simp add: getTotalProgress_eq)
  have a2: "fst (getTotalProgress vendorId d2) = fst (getTotalProgress vendorId d1)"
    using rows1 rows2 sum2 by (simp add: getTotalProgress_eq)
  from a1 pos ints d2 a2 show ?thesis
    by blast
qed

text \<open>The example of the specification: 300 then 450 for vendor 1 gives the text 750, and
  so does 450 then 300.\<close>

theorem totalProgress_is_sum_witness:
  "\<exists>d1. recordAll [(sample_env, 300), (sample_env, 450)] 1 acme_db = Some d1 \<and>
        [(sample_env, 300), (sample_env, 450)] \<noteq> [] \<and>
        mset (map snd [(sample_env, 450), (sample_env, 300 :: rat)]) =
          mset (map snd [(sample_env, 300), (sample_env, 450)]) \<and>
        fst (getTotalProgress 1 d1) = \<lparr>status = 200, body = TotalProgress (JStr ''750'')\<rparr> \<and>
        (\<exists>d2. recordAll [(sample_env, 450), (sample_env, 300)] 1 acme_db = Some d2 \<and>
              fst (getTotalProgress 1 d2) = fst (getTotalProgress 1 d1))"
proof -
  have acc: "list_all (\<lambda>p. accepts 1 p acme_db) (map snd [(sample_env, 300), (sample_env, 450)])"
    by (simp add: accepts_def acme_db_eq)
  from recordAll_accepts [OF acc] obtain d1
    where d1: "recordAll [(sample_env, 300), (sample_env, 450)] 1 acme_db = Some d1" ..
  have ne: "[(sample_env, 300 :: rat), (sample_env, 450)] \<noteq> []"
    by simp
  have perm: "mset (map snd [(sample_env, 450), (sample_env, 300 :: rat)]) =
                mset (map snd [(sample_env, 300), (sample_env, 450)])"
    by simp
  have rendered: "decimal (stored_progress 1 acme_db +
                sum_list (map mysql_round (map snd [(sample_env, 300), (sample_env, 450)]))) = ''750''"
    by (simp add: stored_progress_def acme_db_eq decimal_def decimal_nat.simps)
  from totalProgress_is_sum [OF d1 ne perm] d1 ne perm rendered show ?thesis
    by (auto simp del: recordAll.simps)
qed

section \<open>Registering a vendor twice\<close>

lemma sql_varchar_SqlString_Inr:
  "sql_varchar W n (SqlString s) = Inr t \<Longrightarrow> t = s"
  by (simp add: length_check_def split: if_splits)

lemma insert_vendor_duplicate:
  assumes "list_ex (\<lambda>v. collation_key W (vendor_wallet_address v) = collation_key W w) (vendors d)"
  shows "\<exists>err. insert_vendor W name (SqlString w) milestoneGoal rewardAmount d = Inl err"
proof (cases "sql_varchar W 255 name")
  case (Inl e)
  then show ?thesis by (simp add: insert_vendor_def)
next
  case n: (Inr n)
  show ?thesis
  proof (cases "sql_varchar W 42 (SqlString w)")
    case (Inl e)
    with n show ?thesis by (simp add: insert_vendor_def)
  next
    case t: (Inr t)
    then have teq: "t = w"
      by (rule sql_varchar_SqlString_Inr)
    show ?thesis
    proof (cases "sql_int W milestoneGoal")
      case (Inl e)
      with n t show ?thesis by (simp add: insert_vendor_def)
    next
      case g: (Inr g)
      show ?thesis
      proof (cases "sql_decimal W rewardAmount")
        case (Inl e)
        with n t g show ?thesis by (simp add: insert_vendor_def)
      next
        case (Inr a)
        with n t g teq assms show ?thesis by (simp add: insert_vendor_def)
      qed
    qed
  qed
qed

text \<open>
  C2. A request to \<^verbatim>\<open>/add-vendor\<close> with its four fields truthy and, as wallet address, a
  string that a vendor already has (the same string, or one equal to it under the
  collation of the column) is answered 500 with the message of the handler's only
  \<^verbatim>\<open>catch\<close>, and the store is as before: no vendor row is created. The answer is not the
  409 of a conflict: unlike \<^verbatim>\<open>/signup\<close>, the handler does not look at \<^verbatim>\<open>ER_DUP_ENTRY\<close>.
\<close>

theorem addVendor_duplicate_wallet:
  assumes "truthy name" "truthy (JStr w)" "truthy milestoneGoal" "truthy rewardAmount"
    and "list_ex (\<lambda>v. vendor_wallet_address v = w \<or>
                       collation_key W (vendor_wallet_address v) = collation_key W w) (vendors d)"
  shows "addVendor W name (JStr w) milestoneGoal rewardAmount d =
           (\<lparr>status = 500, body = Message ''Failed to add vendor.''\<rparr>, d)"
proof -
  from assms(5)
  have "list_ex (\<lambda>v. collation_key W (vendor_wallet_address v) = collation_key W w) (vendors d)"
    by (auto simp add: list_ex_iff)
  from insert_vendor_duplicate [OF this] obtain err
    where "insert_vendor W (escape name) (SqlString w) (escape milestoneGoal)
             (escape rewardAmount) d = Inl err"
    by blast
  with assms(1-4) show ?thesis
    by (simp add: addVendor_def js_not_def)
qed

theorem addVendor_duplicate_wallet_witness:
  "truthy (JStr ''Borealis'') \<and> truthy (JStr ''0xABC'') \<and> truthy (JNum (Finite 500)) \<and>
   truthy (JNum (Finite 20000)) \<and>
   list_ex (\<lambda>v. vendor_wallet_address v = ''0xABC'' \<or>
                 collation_key sample_env (vendor_wallet_address v) =
                   collation_key sample_env ''0xABC'') (vendors acme_db) \<and>
   addVendor sample_env (JStr ''Borealis'') (JStr ''0xABC'') (JNum (Finite 500))
     (JNum (Finite 20000)) acme_db =
     (\<lparr>status = 500, body = Message ''Failed to add vendor.''\<rparr>, acme_db) \<and>
   status (fst (addVendor sample_env (JStr ''Borealis'') (JStr ''0xABC'') (JNum (Finite 500))
                  (JNum (Finite 20000)) acme_db)) \<noteq> 409"
proof -
  have m: "truthy (JStr ''Borealis'')" "truthy (JStr ''0xABC'')" "truthy (JNum (Finite 500))"
    "truthy (JNum (Finite 20000))"
    by simp_all
  have dup: "list_ex (\<lambda>v. vendor_wallet_address v = ''0xABC'' \<or>
                           collation_key sample_env (vendor_wallet_address v) =
                             collation_key sample_env ''0xABC'') (vendors acme_db)"
    by (simp add: acme_db_eq)
  from addVendor_duplicate_wallet [OF m dup] m dup show ?thesis
    by simp
qed

section \<open>Logging in\<close>

lemma login_no_row:
  assumes "truthy email" "truthy password" "truthy role"
    and "select_users_by_email W (escape email) d = Inr []"
  shows "login W email password role d =
           (\<lparr>status = 401, body = Message ''Invalid email or password.''\<rparr>, d)"
  using assms by (simp add: login_def js_not_def)

lemma login_row:
  assumes "truthy email" "truthy password" "truthy role"
    and "select_users_by_email W (escape email) d = Inr (user # rest)"
  shows "login W email password role d =
           (case bcrypt_compare_js W password (user_password_hash user) of
              Inl err \<Rightarrow>
                (\<lparr>status = 500, body = Message ''An internal server error occurred.''\<rparr>, d)
            | Inr passwordMatch \<Rightarrow>
                if \<not> passwordMatch
                then (\<lparr>status = 401, body = Message ''Invalid email or password.''\<rparr>, d)
                else if JStr (role_name (user_role user)) \<noteq> role
                then (\<lparr>status = 403,
                       body = Message (access_denied (role_name (user_role user)))\<rparr>, d)
                else (\<lparr>status = 200,
                       body = LoginUser ''Login successful!'' (user_id user) (user_name user)
                                (user_email user) (role_name (user_role user))\<rparr>, d))"
  using assms by (simp add: login_def js_not_def)

text \<open>With a password that is a string the two failures have one answer.\<close>

lemma login_failures_same_for_string_passwords:
  assumes "truthy email" "truthy email'" "truthy (JStr p)" "truthy (JStr p')"
    and "truthy role" "truthy role'"
    and "select_users_by_email W (escape email) d = Inr []"
    and "select_users_by_email W (escape email') d = Inr (user # rest)"
    and "\<not> bcrypt_compare W p' (user_password_hash user)"
  shows "fst (login W email (JStr p) role d) = fst (login W email' (JStr p') role' d) \<and>
         fst (login W email (JStr p) role d) =
           \<lparr>status = 401, body = Message ''Invalid email or password.''\<rparr>"
  using assms by (simp add: login_no_row login_row)

lemma bcrypt_compare_js_not_string:
  "\<not> is_string password \<Longrightarrow> bcrypt_compare_js W password h = Inl BcryptError"
  by (cases password) simp_all

text \<open>
  C3. The two failures do not always have one answer. Take two login requests with all
  three fields present and the same password, a truthy value that is not a string (a
  number, \<^verbatim>\<open>true\<close>). For an email that no user has the answer is 401 with the body
  \<^verbatim>\<open>Invalid email or password.\<close>; for the email of a user, \<^verbatim>\<open>bcrypt.compare\<close> throws, the
  \<^verbatim>\<open>catch\<close> answers 500 with \<^verbatim>\<open>An internal server error occurred.\<close>, and the caller has
  learnt that the email is a user's.
\<close>

theorem login_password_not_string_distinguishes:
  assumes "truthy email" "truthy email'" "truthy password" "truthy role" "truthy role'"
    and "\<not> is_string password"
    and "select_users_by_email W (escape email) d = Inr []"
    and "select_users_by_email W (escape email') d = Inr (user # rest)"
  shows "fst (login W email password role d) =
           \<lparr>status = 401, body = Message ''Invalid email or password.''\<rparr> \<and>
         fst (login W email' password role' d) =
           \<lparr>status = 500, body = Message ''An internal server error occurred.''\<rparr> \<and>
         fst (login W email password role d) \<noteq> fst (login W email' password role' d)"
  using assms by (simp add: login_no_row login_row bcrypt_compare_js_not_string)

theorem login_password_not_string_distinguishes_witness:
  "truthy (JStr ''bob@example.org'') \<and> truthy (JStr ''alice@example.org'') \<and>
   truthy (JNum (Finite 12345)) \<and> truthy (JStr ''government'') \<and>
   \<not> is_string (JNum (Finite 12345)) \<and>
   select_users_by_email sample_env (escape (JStr ''bob@example.org'')) alice_db = Inr [] \<and>
   select_users_by_email sample_env (escape (JStr ''alice@example.org'')) alice_db =
     Inr (users alice_db) \<and>
   fst (login sample_env (JStr ''bob@example.org'') (JNum (Finite 12345)) (JStr ''government'')
          alice_db) =
     \<lparr>status = 401, body = Message ''Invalid email or password.''\<rparr> \<and>
   fst (login sample_env (JStr ''alice@example.org'') (JNum (Finite 12345)) (JStr ''government'')
          alice_db) =
     \<lparr>status = 500, body = Message ''An internal server error occurred.''\<rparr>"
proof -
  have m: "truthy (JStr ''bob@example.org'')" "truthy (JStr ''alice@example.org'')"
    "truthy (JNum (Finite 12345))" "truthy (JStr ''government'')"
    by simp_all
  have n: "\<not> is_string (JNum (Finite 12345))"
    by simp
  have a: "select_users_by_email sample_env (escape (JStr ''bob@example.org'')) alice_db = Inr []"
    by (simp add: alice_db_eq sample_env_def)
  have b: "select_users_by_email sample_env (escape (JStr ''alice@example.org'')) alice_db =
             Inr (users alice_db)"
    by (simp add: alice_db_eq sample_env_def)
  have u: "users alice_db = hd (users alice_db) # tl (users alice_db)"
    by (simp add: alice_db_eq)
  from b u
  have b': "select_users_by_email sample_env (escape (JStr ''alice@example.org'')) alice_db =
              Inr (hd (users alice_db) # tl (users alice_db))"
    by simp
  from login_password_not_string_distinguishes [OF m(1) m(2) m(3) m(4) m(4) n a b'] m n a b
  show ?thesis by blast
qed

text \<open>
  C4. A login request with all three fields present, for an email whose first row in the
  store is a user whose stored hash the password matches, but with a role other than
  that user's stored role, is answered 403, never 200, and the message names the user's
  stored role.
\<close>

theorem login_wrong_role_403:
  assumes "truthy email" "truthy (JStr p)" "truthy role"
    and "select_users_by_email W (escape email) d = Inr (user # rest)"
    and "bcrypt_compare W p (user_password_hash user)"
    and "JStr (role_name (user_role user)) \<noteq> role"
  shows "login W email (JStr p) role d =
           (\<lparr>status = 403,
             body = Message (''Access denied. Please log in through the '' @ [CHR 0x27] @
                             role_name (user_role user) @ [CHR 0x27] @ '' portal.'')\<rparr>, d)"
  using assms by (simp add: login_row access_denied_def)

theorem login_wrong_role_403_witness:
  "truthy (JStr ''alice@example.org'') \<and> truthy (JStr ''hunter2'') \<and> truthy (JStr ''auditor'') \<and>
   select_users_by_email sample_env (escape (JStr ''alice@example.org'')) alice_db =
     Inr (users alice_db) \<and>
   bcrypt_compare sample_env ''hunter2'' (user_password_hash (hd (users alice_db))) \<and>
   JStr (role_name (user_role (hd (users alice_db)))) \<noteq> JStr ''auditor'' \<and>
   login sample_env (JStr ''alice@example.org'') (JStr ''hunter2'') (JStr ''auditor'') alice_db =
     (\<lparr>status = 403,
       body = Message ''Access denied. Please log in through the 'government' portal.''\<rparr>, alice_db)"
proof -
  have m: "truthy (JStr ''alice@example.org'')" "truthy (JStr ''hunter2'')"
    "truthy (JStr ''auditor'')"
    by simp_all
  have b: "select_users_by_email sample_env (escape (JStr ''alice@example.org'')) alice_db =
             Inr (users alice_db)"
    by (simp add: alice_db_eq sample_env_def)
  have u: "users alice_db = hd (users alice_db) # tl (users alice_db)"
    by (simp add: alice_db_eq)
  from b u
  have b': "select_users_by_email sample_env (escape (JStr ''alice@example.org'')) alice_db =
              Inr (hd (users alice_db) # tl (users alice_db))"
    by simp
  have c: "bcrypt_compare sample_env ''hunter2'' (user_password_hash (hd (users alice_db)))"
    by (simp add: alice_db_eq sample_env_def)
  have r: "JStr (role_name (user_role (hd (users alice_db)))) \<noteq> JStr ''auditor''"
    by (simp add: alice_db_eq)
  have g: "role_name (user_role (hd (users alice_db))) = ''government''"
    by (simp add: alice_db_eq)
  from login_wrong_role_403 [OF m b' c r] b c r m g
  show ?thesis by simp
qed

section \<open>Recording progress\<close>

text \<open>
  The specification has every value that is not numeric rejected with 400. The handler's
  test \<^verbatim>\<open>!newProgress || isNaN(newProgress) || newProgress <= 0\<close> goes through the numeric
  conversion of the language, so a value that is no number but converts to a positive one
  passes. The boolean \<^verbatim>\<open>true\<close> converts to 1: for the vendor of the example the request
  is answered 200, a row with progress 1 is appended, and the vendor's total changes from
  the number 0 to the text \<^verbatim>\<open>1\<close>.
\<close>

theorem recordProgress_true_accepted:
  "recordProgress sample_env 1 (JBool True) acme_db =
     (\<lparr>status = 200, body = Message ''Progress updated successfully!''\<rparr>,
      acme_db\<lparr>progress_logs := [\<lparr>log_id = 1, log_vendor_id = 1, log_progress = 1, log_timestamp = 0\<rparr>],
              progress_logs_auto_increment := 2\<rparr>) \<and>
   fst (getTotalProgress 1 acme_db) = \<lparr>status = 200, body = TotalProgress (JNum (Finite 0))\<rparr> \<and>
   fst (getTotalProgress 1 (snd (recordProgress sample_env 1 (JBool True) acme_db))) =
     \<lparr>status = 200, body = TotalProgress (JStr ''1'')\<rparr>"
  by (simp add: recordProgress_def js_not_def isNaN_def js_le_zero_def insert_progress_def
        sql_int_range_def acme_db_eq sample_env_def getTotalProgress_eq stored_progress_def
        decimal_def decimal_nat.simps)

text \<open>
  C5, as the handler has it. A request to record progress is answered 400 exactly when
  \<^verbatim>\<open>newProgress\<close> is falsy (absent, \<^verbatim>\<open>null\<close>, \<^verbatim>\<open>false\<close>, 0, the empty string), or
  converts to NaN, or converts to a number that is not strictly positive. Then no progress
  entry is appended: the store is as before, and so is every vendor's total.
\<close>

theorem recordProgress_invalid_400:
  "(status (fst (recordProgress W vendorId newProgress d)) = 400) =
     (js_not newProgress \<or> isNaN W newProgress \<or> js_le_zero W newProgress) \<and>
   (js_not newProgress \<or> isNaN W newProgress \<or> js_le_zero W newProgress \<longrightarrow>
      recordProgress W vendorId newProgress d =
        (\<lparr>status = 400, body = Message ''Invalid progress value.''\<rparr>, d) \<and>
      fst (getTotalProgress v (snd (recordProgress W vendorId newProgress d))) =
        fst (getTotalProgress v d))"
  by (simp add: recordProgress_def Let_def split: sum.splits)

theorem recordProgress_invalid_400_witness:
  "js_not JUndefined \<and> isNaN sample_env (JStr ''abc'') \<and>
   js_le_zero sample_env (JNum (Finite (- 5))) \<and>
   recordProgress sample_env 1 JUndefined busy_db =
     (\<lparr>status = 400, body = Message ''Invalid progress value.''\<rparr>, busy_db) \<and>
   recordProgress sample_env 1 (JStr ''abc'') busy_db =
     (\<lparr>status = 400, body = Message ''Invalid progress value.''\<rparr>, busy_db) \<and>
   recordProgress sample_env 1 (JNum (Finite (- 5))) busy_db =
     (\<lparr>status = 400, body = Message ''Invalid progress value.''\<rparr>, busy_db) \<and>
   fst (getTotalProgress 1 (snd (recordProgress sample_env 1 (JStr ''abc'') busy_db))) =
     \<lparr>status = 200, body = TotalProgress (JStr ''300'')\<rparr>"
proof -
  have h: "js_not JUndefined" "isNaN sample_env (JStr ''abc'')"
    "js_le_zero sample_env (JNum (Finite (- 5)))"
    by (simp_all add: js_not_def isNaN_def js_le_zero_def sample_env_def)
  have t: "fst (getTotalProgress 1 busy_db) = \<lparr>status = 200, body = TotalProgress (JStr ''300'')\<rparr>"
    by (simp add: getTotalProgress_eq stored_progress_def busy_db_eq decimal_def
          decimal_nat.simps)
  from recordProgress_invalid_400 [of sample_env 1 JUndefined busy_db 1]
    recordProgress_invalid_400 [of sample_env 1 "JStr ''abc''" busy_db 1]
    recordProgress_invalid_400 [of sample_env 1 "JNum (Finite (- 5))" busy_db 1] h t
  show ?thesis by simp
qed

text \<open>
  C6. For a vendor id with no progress entry, \<^verbatim>\<open>GET /vendors/:vendorId/progress\<close> answers
  200 with \<open>totalProgress\<close> the number 0, not \<^verbatim>\<open>null\<close>.
\<close>

theorem totalProgress_zero_without_entries:
  assumes "list_all (\<lambda>r. log_vendor_id r \<noteq> vendorId) (progress_logs d)"
  shows "getTotalProgress vendorId d =
           (\<lparr>status = 200, body = TotalProgress (JNum (Finite 0))\<rparr>, d)"
proof -
  from assms have "filter (\<lambda>r. log_vendor_id r = vendorId) (progress_logs d) = []"
    by (simp add: list_all_iff filter_empty_conv)
  then show ?thesis
    by (simp add: getTotalProgress_def select_sum_progress_def)
qed

theorem totalProgress_zero_without_entries_witness:
  "list_all (\<lambda>r. log_vendor_id r \<noteq> 2) (progress_logs busy_db) \<and>
   getTotalProgress 2 busy_db =
     (\<lparr>status = 200, body = TotalProgress (JNum (Finite 0))\<rparr>, busy_db)"
proof -
  have h: "list_all (\<lambda>r. log_vendor_id r \<noteq> 2) (progress_logs busy_db)"
    by (simp add: busy_db_eq)
  from totalProgress_zero_without_entries [OF h] h show ?thesis by simp
qed

section \<open>The foreign key of a progress entry\<close>

lemma insert_user_FOREIGN_KEY_CHECKS:
  "insert_user W name email passwordHash role d = Inr d' \<Longrightarrow>
     FOREIGN_KEY_CHECKS d' = FOREIGN_KEY_CHECKS d"
  by (auto simp add: insert_user_def and_then_Inr_iff split: if_splits)

lemma insert_vendor_FOREIGN_KEY_CHECKS:
  "insert_vendor W name walletAddress milestoneGoal rewardAmount d = Inr (insertId, d') \<Longrightarrow>
     FOREIGN_KEY_CHECKS d' = FOREIGN_KEY_CHECKS d"
  by (auto simp add: insert_vendor_def and_then_Inr_iff split: if_splits)

lemma insert_progress_FOREIGN_KEY_CHECKS:
  "insert_progress W vendorId newProgress timestamp d = Inr d' \<Longrightarrow>
     FOREIGN_KEY_CHECKS d' = FOREIGN_KEY_CHECKS d"
  by (auto simp add: insert_progress_def and_then_Inr_iff split: if_splits)

lemma signup_FOREIGN_KEY_CHECKS:
  assumes "FOREIGN_KEY_CHECKS d"
  shows "FOREIGN_KEY_CHECKS (snd (signup W name email role password d))"
proof (cases "bcrypt_hash_js W password")
  case (Inl err)
  with assms show ?thesis by (simp add: signup_def)
next
  case h: (Inr passwordHash)
  show ?thesis
  proof (cases "insert_user W (escape name) (escape email) (SqlString passwordHash)
                  (escape role) d")
    case (Inl err)
    with assms h show ?thesis by (simp add: signup_def)
  next
    case (Inr d')
    with assms h insert_user_FOREIGN_KEY_CHECKS [OF Inr] show ?thesis
      by (simp add: signup_def)
  qed
qed

lemma login_store: "snd (login W email password role d) = d"
  by (simp add: login_def split: sum.splits list.splits)

lemma FOREIGN_KEY_CHECKS_route:
  assumes "FOREIGN_KEY_CHECKS d"
  shows "FOREIGN_KEY_CHECKS (snd (route W req d))"
proof (cases req)
  case (POST_signup name email role password)
  with assms show ?thesis
    by (simp add: signup_FOREIGN_KEY_CHECKS)
next
  case (POST_login email password role)
  with assms show ?thesis
    by (simp add: login_store)
next
  case GET_vendors
  with assms show ?thesis
    by (simp add: listVendors_def select_vendors_def)
next
  case (POST_add_vendor name walletAddress milestoneGoal rewardAmount)
  show ?thesis
  proof (cases "insert_vendor W (escape name) (escape walletAddress) (escape milestoneGoal)
                  (escape rewardAmount) d")
    case (Inl err)
    with assms show ?thesis unfolding POST_add_vendor by (simp add: addVendor_def)
  next
    case (Inr res)
    obtain insertId d' where res: "res = (insertId, d')" by (cases res)
    from Inr res insert_vendor_FOREIGN_KEY_CHECKS [of W _ _ _ _ d insertId d'] assms
    show ?thesis unfolding POST_add_vendor by (simp add: addVendor_def)
  qed
next
  case (GET_progress vendorId)
  with assms show ?thesis
    by (simp add: getTotalProgress_eq)
next
  case (POST_progress vendorId newProgress)
  show ?thesis
  proof (cases "insert_progress W vendorId (escape newProgress) (now W) d")
    case (Inl err)
    with assms show ?thesis unfolding POST_progress by (simp add: recordProgress_def)
  next
    case (Inr d')
    with assms insert_progress_FOREIGN_KEY_CHECKS [OF Inr] show ?thesis
      unfolding POST_progress by (simp add: recordProgress_def)
  qed
next
  case (POST_payout vendorId)
  with assms show ?thesis
    by (simp add: markPaid_def update_vendor_paid_def)
next
  case POST_reset
  then show ?thesis
    by (simp add: resetAll_def set_foreign_key_checks_def truncate_progress_logs_def
        truncate_vendors_def truncate_users_def)
qed

lemma reachable_FOREIGN_KEY_CHECKS:
  "reachable d \<Longrightarrow> FOREIGN_KEY_CHECKS d"
proof (induction rule: reachable.induct)
  case (listen stored)
  then show ?case by (simp add: setupDatabase_def split: option.splits)
next
  case (request d W req)
  then show ?case by (simp add: FOREIGN_KEY_CHECKS_route)
qed

text \<open>
  C9. While the server runs, a request to record progress whose \<^verbatim>\<open>newProgress\<close> passes the
  validation, for a vendor id that no vendor has, is answered 500, and the store is as
  before: no progress entry is appended. The foreign key is checked in every state the
  server reaches, since \<^verbatim>\<open>/reset\<close> switches the checks back on.
\<close>

theorem recordProgress_unknown_vendor:
  assumes "reachable d"
    and "\<not> js_not newProgress" "\<not> isNaN W newProgress" "\<not> js_le_zero W newProgress"
    and "list_all (\<lambda>v. vendor_id v \<noteq> vendorId) (vendors d)"
  shows "recordProgress W vendorId newProgress d =
           (\<lparr>status = 500, body = Message ''Failed to update progress.''\<rparr>, d)"
proof -
  from assms(1) have fk: "FOREIGN_KEY_CHECKS d"
    by (rule reachable_FOREIGN_KEY_CHECKS)
  have "\<exists>err. insert_progress W vendorId (escape newProgress) (now W) d = Inl err"
  proof (cases "sql_int_range vendorId")
    case (Inl e)
    then show ?thesis by (simp add: insert_progress_def)
  next
    case v: (Inr v)
    then have veq: "v = vendorId"
      by (simp add: sql_int_range_def split: if_splits)
    show ?thesis
    proof (cases "sql_int W (escape newProgress)")
      case (Inl e)
      with v show ?thesis by (simp add: insert_progress_def)
    next
      case (Inr p)
      with v veq fk assms(5) show ?thesis by (simp add: insert_progress_def)
    qed
  qed
  then obtain err where "insert_progress W vendorId (escape newProgress) (now W) d = Inl err" ..
  with assms(2-4) show ?thesis
    by (simp add: recordProgress_def)
qed

theorem recordProgress_unknown_vendor_witness:
  "reachable acme_db \<and> \<not> js_not (JNum (Finite 5)) \<and> \<not> isNaN sample_env (JNum (Finite 5)) \<and>
   \<not> js_le_zero sample_env (JNum (Finite 5)) \<and>
   list_all (\<lambda>v. vendor_id v \<noteq> 7) (vendors acme_db) \<and>
   recordProgress sample_env 7 (JNum (Finite 5)) acme_db =
     (\<lparr>status = 500, body = Message ''Failed to update progress.''\<rparr>, acme_db)"
proof -
  have "reachable (snd (route sample_env
          (POST_add_vendor (JStr ''Acme H2'') (JStr ''0xABC'') (JNum (Finite 1000))
             (JNum (Finite 50000)))
          (setupDatabase None)))"
    by (rule reachable.request) (rule reachable.listen)
  then have r: "reachable acme_db"
    by (simp add: acme_db_def)
  have v: "\<not> js_not (JNum (Finite 5))" "\<not> isNaN sample_env (JNum (Finite 5))"
    "\<not> js_le_zero sample_env (JNum (Finite 5))"
    by (simp_all add: js_not_def isNaN_def js_le_zero_def)
  have n: "list_all (\<lambda>v. vendor_id v \<noteq> 7) (vendors acme_db)"
    by (simp add: acme_db_eq)
  from recordProgress_unknown_vendor [OF r v n] r v n show ?thesis
    by simp
qed

section \<open>Marking a vendor paid\<close>

lemma markPaid_eq:
  "markPaid vendorId d =
     (\<lparr>status = 200, body = Message ''Payout processed successfully!''\<rparr>,
      d\<lparr>vendors := map (\<lambda>v. if vendor_id v = vendorId then v\<lparr>vendor_is_paid := True\<rparr> else v)
                       (vendors d)\<rparr>)"
  by (simp add: markPaid_def update_vendor_paid_def)

text \<open>
  C7. For every vendor id, \<^verbatim>\<open>POST /vendors/:vendorId/payout\<close> answers 200 with the same
  message and changes nothing but \<open>is_paid\<close> of the rows with that id, which it sets;
  afterwards every such row is paid. A second call gives the same answer and the same
  store as the first, and a call for an id that no unpaid vendor has (a paid vendor, or no
  vendor) leaves the store as it is.
\<close>

theorem markPaid_idempotent:
  "markPaid vendorId d =
     (\<lparr>status = 200, body = Message ''Payout processed successfully!''\<rparr>,
      d\<lparr>vendors := map (\<lambda>v. if vendor_id v = vendorId then v\<lparr>vendor_is_paid := True\<rparr> else v)
                       (vendors d)\<rparr>) \<and>
   list_all (\<lambda>v. vendor_id v = vendorId \<longrightarrow> vendor_is_paid v) (vendors (snd (markPaid vendorId d))) \<and>
   markPaid vendorId (snd (markPaid vendorId d)) = markPaid vendorId d \<and>
   (list_all (\<lambda>v. vendor_id v = vendorId \<longrightarrow> vendor_is_paid v) (vendors d) \<longrightarrow>
      markPaid vendorId d = (\<lparr>status = 200, body = Message ''Payout processed successfully!''\<rparr>, d))"
proof -
  define f where "f = (\<lambda>v::vendor_row. if vendor_id v = vendorId then v\<lparr>vendor_is_paid := True\<rparr> else v)"
  define r where "r = \<lparr>status = 200, body = Message ''Payout processed successfully!''\<rparr>"
  have eq: "markPaid vendorId x = (r, x\<lparr>vendors := map f (vendors x)\<rparr>)" for x
    by (simp add: markPaid_eq f_def r_def)
  have ff: "f (f v) = f v" for v
    by (simp add: f_def)
  have pf: "vendor_id (f v) = vendorId \<longrightarrow> vendor_is_paid (f v)" for v
    by (simp add: f_def)
  have paid: "list_all (\<lambda>v. vendor_id v = vendorId \<longrightarrow> vendor_is_paid v) (map f (vendors d))"
    by (simp add: list_all_iff pf)
  have twice: "map f (map f (vendors d)) = map f (vendors d)"
    by (simp add: ff)
  have noop: "map f (vendors d) = vendors d"
    if "list_all (\<lambda>v. vendor_id v = vendorId \<longrightarrow> vendor_is_paid v) (vendors d)"
  proof (rule map_idI)
    fix v assume "v \<in> set (vendors d)"
    with that have "vendor_id v = vendorId \<longrightarrow> vendor_is_paid v"
      by (simp add: list_all_iff)
    then show "f v = v" by (simp add: f_def)
  qed
  have c1: "markPaid vendorId d = (r, d\<lparr>vendors := map f (vendors d)\<rparr>)"
    by (rule eq)
  have c2: "list_all (\<lambda>v. vendor_id v = vendorId \<longrightarrow> vendor_is_paid v)
              (vendors (snd (markPaid vendorId d)))"
    using paid by (simp add: eq)
  have c3: "markPaid vendorId (snd (markPaid vendorId d)) = markPaid vendorId d"
    using twice by (simp add: eq o_def ff)
  have c4: "markPaid vendorId d = (r, d)"
    if "list_all (\<lambda>v. vendor_id v = vendorId \<longrightarrow> vendor_is_paid v) (vendors d)"
    using noop [OF that] by (simp add: eq)
  from c1 c2 c3 c4 show ?thesis
    unfolding f_def r_def by (intro conjI impI)
qed

theorem markPaid_idempotent_witness:
  "list_all (\<lambda>v. vendor_id v \<noteq> 7) (vendors acme_db) \<and>
   markPaid 7 acme_db = (\<lparr>status = 200, body = Message ''Payout processed successfully!''\<rparr>, acme_db) \<and>
   map vendor_is_paid (vendors acme_db) = [False] \<and>
   map vendor_is_paid (vendors (snd (markPaid 1 acme_db))) = [True] \<and>
   markPaid 1 (snd (markPaid 1 acme_db)) = markPaid 1 acme_db"
proof -
  have h: "list_all (\<lambda>v. vendor_id v = 7 \<longrightarrow> vendor_is_paid v) (vendors acme_db)"
    "list_all (\<lambda>v. vendor_id v \<noteq> 7) (vendors acme_db)"
    "map vendor_is_paid (vendors acme_db) = [False]"
    by (simp_all add: acme_db_eq)
  have p: "map vendor_is_paid (vendors (snd (markPaid 1 acme_db))) = [True]"
    by (simp add: markPaid_eq acme_db_eq)
  have a: "markPaid 7 acme_db =
             (\<lparr>status = 200, body = Message ''Payout processed successfully!''\<rparr>, acme_db)"
    by (rule markPaid_idempotent [of 7 acme_db, THEN conjunct2, THEN conjunct2, THEN conjunct2,
          THEN mp, OF h(1)])
  have c: "markPaid 1 (snd (markPaid 1 acme_db)) = markPaid 1 acme_db"
    by (rule markPaid_idempotent [of 1 acme_db, THEN conjunct2, THEN conjunct2, THEN conjunct1])
  show ?thesis
    by (intro conjI) (rule h(2) a h(3) p c)+
qed

section \<open>Resetting\<close>

lemma resetAll_eq:
  "resetAll d =
     (\<lparr>status = 200, body = Message ''Simulation reset successfully.''\<rparr>,
      d\<lparr>users := [], vendors := [], progress_logs := [], users_auto_increment := 1,
        vendors_auto_increment := 1, progress_logs_auto_increment := 1,
        FOREIGN_KEY_CHECKS := True\<rparr>)"
  by (simp add: resetAll_def set_foreign_key_checks_def truncate_progress_logs_def
        truncate_vendors_def truncate_users_def)

text \<open>
  C8. \<^verbatim>\<open>POST /reset\<close> answers 200 and leaves the three tables empty and the foreign-key
  checks on. Afterwards \<^verbatim>\<open>GET /vendors\<close> answers the empty array, the total progress of
  every vendor id is 0, and every login with its three fields present, the email a
  string, is answered 401.
\<close>

theorem resetAll_clears:
  "fst (resetAll d) = \<lparr>status = 200, body = Message ''Simulation reset successfully.''\<rparr> \<and>
   progress_logs (snd (resetAll d)) = [] \<and>
   vendors (snd (resetAll d)) = [] \<and>
   users (snd (resetAll d)) = [] \<and>
   FOREIGN_KEY_CHECKS (snd (resetAll d)) \<and>
   fst (listVendors W (snd (resetAll d))) = \<lparr>status = 200, body = VendorRows []\<rparr> \<and>
   fst (getTotalProgress vendorId (snd (resetAll d))) =
     \<lparr>status = 200, body = TotalProgress (JNum (Finite 0))\<rparr> \<and>
   (truthy (JStr email) \<and> truthy password \<and> truthy role \<longrightarrow>
      fst (login W (JStr email) password role (snd (resetAll d))) =
        \<lparr>status = 401, body = Message ''Invalid email or password.''\<rparr>)"
  by (simp add: resetAll_eq listVendors_def select_vendors_def getTotalProgress_eq
        login_def js_not_def)

theorem resetAll_clears_witness:
  "truthy (JStr ''alice@example.org'') \<and> truthy (JStr ''hunter2'') \<and>
   truthy (JStr ''government'') \<and>
   status (fst (login sample_env (JStr ''alice@example.org'') (JStr ''hunter2'')
                  (JStr ''government'') busy_db)) = 200 \<and>
   fst (login sample_env (JStr ''alice@example.org'') (JStr ''hunter2'') (JStr ''government'')
          (snd (resetAll busy_db))) =
     \<lparr>status = 401, body = Message ''Invalid email or password.''\<rparr> \<and>
   fst (getTotalProgress 1 busy_db) = \<lparr>status = 200, body = TotalProgress (JStr ''300'')\<rparr> \<and>
   fst (getTotalProgress 1 (snd (resetAll busy_db))) =
     \<lparr>status = 200, body = TotalProgress (JNum (Finite 0))\<rparr> \<and>
   fst (listVendors sample_env (snd (resetAll busy_db))) =
     \<lparr>status = 200, body = VendorRows []\<rparr> \<and>
   FOREIGN_KEY_CHECKS (snd (resetAll busy_db))"
proof -
  have m: "truthy (JStr ''alice@example.org'')" "truthy (JStr ''hunter2'')"
    "truthy (JStr ''government'')"
    by simp_all
  have before: "status (fst (login sample_env (JStr ''alice@example.org'') (JStr ''hunter2'')
                  (JStr ''government'') busy_db)) = 200"
    by (simp add: login_def js_not_def busy_db_eq alice_db_eq sample_env_def)
  have t: "fst (getTotalProgress 1 busy_db) = \<lparr>status = 200, body = TotalProgress (JStr ''300'')\<rparr>"
    by (simp add: getTotalProgress_eq stored_progress_def busy_db_eq decimal_def
          decimal_nat.simps)
  from resetAll_clears [of busy_db sample_env 1 "''alice@example.org''" "JStr ''hunter2''"
      "JStr ''government''"] m before t
  show ?thesis by simp
qed

section \<open>Signing up with a role that is no member\<close>





end
